theory Spec2Isabelle
  imports Main
begin

section \<open>Python values, exceptions and effects\<close>

text \<open>
  The exceptions the modelled code can raise. \<open>AMQPConnectionError\<close> is a subclass of
  \<open>AMQPError\<close> in aio_pika; \<open>SendError\<close> stands for whatever a WebSocket raises when
  \<open>send_text\<close> fails; \<open>OtherException\<close> is any exception that is not a \<open>ValueError\<close>.
\<close>

datatype error =
    ValueError | TypeError | AttributeError | KeyError
  | AMQPError | AMQPConnectionError | SendError | OtherException

text \<open>A header (or queue argument) value: an integer, a string or Python's \<open>None\<close>.\<close>

datatype hval = HInt int | HStr string | HNone

text \<open>A Python dict of headers, as an association list read with \<open>map_of\<close>.\<close>

type_synonym pydict = "(string \<times> hval) list"

definition dict_get :: "pydict \<Rightarrow> string \<Rightarrow> hval \<Rightarrow> hval" where
  "dict_get d k dflt = (case map_of d k of None \<Rightarrow> dflt | Some v \<Rightarrow> v)"

text \<open>
  A message (\<open>aio_pika.Message\<close> or \<open>IncomingMessage\<close>): the body and the headers
  mapping, which may be absent (\<open>None\<close>).
\<close>

record message =
  body :: string
  headers :: "pydict option"

text \<open>Truthiness of \<open>message.headers\<close>: \<open>None\<close> and the empty dict are falsy.\<close>

definition truthy :: "pydict option \<Rightarrow> bool" where
  "truthy h = (case h of None \<Rightarrow> False | Some [] \<Rightarrow> False | Some (x # xs) \<Rightarrow> True)"

text \<open>
  The argument of \<open>asyncio.sleep(2 ** retries)\<close>. For a non-negative exponent Python
  computes the integer power; for a negative one it computes the float \<open>2.0 ** retries\<close>,
  kept symbolic here.
\<close>

datatype delay = Seconds nat | FloatSeconds int

definition py_pow2 :: "int \<Rightarrow> delay" where
  "py_pow2 n = (if 0 \<le> n then Seconds (2 ^ nat n) else FloatSeconds n)"

text \<open>
  What the code does to the outside world, in the order it does it. \<open>'p\<close> is the type of
  a parsed payload. \<open>LoggerCall m\<close> is a call of method \<open>m\<close> of the logger;
  \<open>Publish ex rk msg\<close> publishes \<open>msg\<close> to exchange \<open>ex\<close> with routing key \<open>rk\<close>
  (\<open>None\<close> when the call passes none); \<open>DeclareQueue name durable auto_delete arguments\<close>
  has \<open>auto_delete = None\<close> when the call leaves the keyword out;
  \<open>Consume queue consumer no_ack\<close> is \<open>queue.consume(consumer, no_ack=no_ack)\<close>, where
  the consumer handed over is either an \<open>async\<close> function or a coroutine object (what
  calling an \<open>async def\<close> without \<open>await\<close> yields).
\<close>

datatype consumer = AsyncFunction | CoroutineObject

datatype 'p effect =
    LoggerCall string
  | Uuid4
  | CallbackCall 'p hval
  | Sleep delay
  | Publish string "string option" message
  | Ack
  | Reject
  | ConnectRobust
  | OpenChannel
  | DeclareExchange string string
  | DeclareQueue string bool "bool option" pydict
  | BindQueue string string
  | Consume string consumer bool

text \<open>
  A computation: the effects performed so far, and either the exception that ended it
  (\<open>Inl\<close>) or its result.
\<close>

type_synonym ('p, 'a) io = "'p effect list \<times> (error + 'a)"

definition return_io :: "'a \<Rightarrow> ('p, 'a) io" where
  "return_io x = ([], Inr x)"

definition raise_exc :: "error \<Rightarrow> ('p, 'a) io" where
  "raise_exc e = ([], Inl e)"

definition perform :: "'p effect \<Rightarrow> ('p, unit) io" where
  "perform e = ([e], Inr ())"

definition and_then :: "('p, 'a) io \<Rightarrow> ('a \<Rightarrow> ('p, 'b) io) \<Rightarrow> ('p, 'b) io" where
  "and_then m f =
     (case m of
        (t, Inl e) \<Rightarrow> (t, Inl e)
      | (t, Inr x) \<Rightarrow> (case f x of (t', r) \<Rightarrow> (t @ t', r)))"

text \<open>\<open>try: m except Exception as e: h e\<close>\<close>

definition try_except :: "('p, 'a) io \<Rightarrow> (error \<Rightarrow> ('p, 'a) io) \<Rightarrow> ('p, 'a) io" where
  "try_except m h =
     (case m of
        (t, Inl e) \<Rightarrow> (case h e of (t', r) \<Rightarrow> (t @ t', r))
      | (t, Inr x) \<Rightarrow> (t, Inr x))"

section \<open>The audit logger (src/services/loggers/audit_logger.py)\<close>

text \<open>
  The methods class \<open>AuditLogger\<close> defines. The class has no base class and no
  \<open>__getattr__\<close>, so calling any other attribute raises \<open>AttributeError\<close>. The methods
  themselves never raise: \<open>BaseLogger._log_text\<close> catches every exception of the backend.
\<close>

definition AuditLogger :: "string list" where
  "AuditLogger = [''log'', ''warn'', ''error'', ''debug'', ''critical'']"

definition logger_call :: "string \<Rightarrow> ('p, unit) io" where
  "logger_call m =
     (if m \<in> set AuditLogger then perform (LoggerCall m) else raise_exc AttributeError)"

section \<open>The aio_pika names the subscriber uses\<close>

text \<open>
  aio_pika is not part of the repository. What the subscriber needs of it: the names
  the package exports at top level, and the public attributes of a channel. The exception
  classes \<open>AMQPError\<close> and \<open>AMQPConnectionError\<close> live in \<open>aio_pika.exceptions\<close> and are not
  exported at top level, and a channel has \<open>declare_exchange\<close> and \<open>get_exchange\<close> and no
  attribute \<open>exchange\<close>. Reading a name that is missing raises \<open>AttributeError\<close>.
\<close>

definition aio_pika_exports :: "string list" where
  "aio_pika_exports =
     [''AMQPException'', ''Channel'', ''Connection'', ''DeliveryMode'', ''Exchange'',
      ''ExchangeType'', ''IncomingMessage'', ''Message'', ''MessageProcessError'', ''Queue'',
      ''RobustChannel'', ''RobustConnection'', ''RobustExchange'', ''RobustQueue'',
      ''connect'', ''connect_robust'', ''logger'', ''patterns'']"

definition module_attr :: "string \<Rightarrow> ('p, unit) io" where
  "module_attr name =
     (if name \<in> set aio_pika_exports then return_io () else raise_exc AttributeError)"

definition channel_attributes :: "string list" where
  "channel_attributes =
     [''close'', ''declare_exchange'', ''declare_queue'', ''default_exchange'',
      ''exchange_delete'', ''get_exchange'', ''get_queue'', ''queue_delete'', ''set_qos'',
      ''transaction'']"

definition channel_attr :: "string \<Rightarrow> ('p, unit) io" where
  "channel_attr name =
     (if name \<in> set channel_attributes then return_io () else raise_exc AttributeError)"

section \<open>EventSubscriber (src/consumer.py)\<close>

record EventSubscriber =
  exchange_name :: string
  connection :: bool
  channel :: bool
  dead_letter_exchange :: string
  retry_exchange :: string
  max_retries :: int
  message_ttl :: int
  max_message_count :: int

text \<open>
  \<open>__init__\<close>. The fields \<open>connection\<close> and \<open>channel\<close> are \<open>False\<close> while the attribute
  is \<open>None\<close>. The logger injected is the \<open>AuditLogger\<close> above; the connection URL is
  configuration and is left out.
\<close>

definition EventSubscriber_init :: "string \<Rightarrow> string \<Rightarrow> EventSubscriber" where
  "EventSubscriber_init exchange dlx =
     \<lparr> exchange_name = exchange, connection = False, channel = False,
       dead_letter_exchange = dlx, retry_exchange = ''retry_exchange'',
       max_retries = 5, message_ttl = 300000, max_message_count = 1000 \<rparr>"

text \<open>
  A call to the broker: \<open>reply\<close> says which exception, if any, the broker answers an
  operation with; an operation that succeeds is recorded.
\<close>

definition broker :: "('p effect \<Rightarrow> error option) \<Rightarrow> 'p effect \<Rightarrow> ('p, unit) io" where
  "broker reply op = (case reply op of None \<Rightarrow> perform op | Some e \<Rightarrow> raise_exc e)"

definition declare_dead_letter_queue ::
  "('p effect \<Rightarrow> error option) \<Rightarrow> EventSubscriber \<Rightarrow> ('p, unit) io" where
  "declare_dead_letter_queue reply s =
     and_then (broker reply (DeclareQueue ''dead_letter_queue'' True None
                 [(''x-message-ttl'', HInt (message_ttl s))])) (\<lambda>_.
     broker reply (BindQueue ''dead_letter_queue'' (dead_letter_exchange s)))"

text \<open>
  \<open>connect\<close>: returns the subscriber with its connection and channel set. When the body
  raises, matching the clause \<open>except aio_pika.AMQPConnectionError\<close> first reads that name
  from the module, which raises \<open>AttributeError\<close> in place of the exception: the handler
  (log the error, re-raise) is written as in the source and is never reached.
\<close>

definition EventSubscriber_connect ::
  "('p effect \<Rightarrow> error option) \<Rightarrow> EventSubscriber \<Rightarrow> ('p, EventSubscriber) io" where
  "EventSubscriber_connect reply s =
     try_except
       (and_then (broker reply ConnectRobust) (\<lambda>_.
        and_then (broker reply OpenChannel) (\<lambda>_.
        and_then (broker reply (DeclareExchange (exchange_name s) ''fanout'')) (\<lambda>_.
        and_then (broker reply (DeclareExchange (dead_letter_exchange s) ''fanout'')) (\<lambda>_.
        and_then (broker reply (DeclareExchange (retry_exchange s) ''direct'')) (\<lambda>_.
        and_then (declare_dead_letter_queue reply s) (\<lambda>_.
        return_io (s\<lparr>connection := True, channel := True\<rparr>))))))))
       (\<lambda>e. and_then (module_attr ''AMQPConnectionError'') (\<lambda>_.
             if e = AMQPConnectionError
             then and_then (logger_call ''error'') (\<lambda>_. raise_exc e)
             else raise_exc e))"

text \<open>
  The value of the expression \<open>self._consume_message(callback)\<close>: \<open>_consume_message\<close> is
  declared \<open>async def\<close> and is called without \<open>await\<close>, so the value is a coroutine
  object, not the function \<open>on_message\<close> that awaiting it would return.
\<close>

definition consume_message_unawaited :: consumer where
  "consume_message_unawaited = CoroutineObject"

text \<open>
  \<open>subscribe_events\<close>. With \<open>self.channel\<close> still \<open>None\<close> the first attribute access
  raises \<open>AttributeError\<close>. When the body raises, matching the clause
  \<open>except aio_pika.AMQPError\<close> first reads that name from the module, which raises
  \<open>AttributeError\<close> in place of the exception: the handler (log the error, re-raise) is
  written as in the source and is never reached.
\<close>

definition subscribe_events ::
  "('p effect \<Rightarrow> error option) \<Rightarrow> EventSubscriber \<Rightarrow> string \<Rightarrow> ('p, unit) io" where
  "subscribe_events reply s queue_name =
     try_except
       (if \<not> channel s then raise_exc AttributeError
        else
          and_then (broker reply (DeclareQueue queue_name True (Some False)
                      [(''x-message-ttl'', HInt (message_ttl s)),
                       (''x-dead-letter-exchange'', HStr (dead_letter_exchange s)),
                       (''x-max-length'', HInt (max_message_count s))])) (\<lambda>_.
          and_then (broker reply (BindQueue queue_name (exchange_name s))) (\<lambda>_.
          broker reply (Consume queue_name consume_message_unawaited False))))
       (\<lambda>e. and_then (module_attr ''AMQPError'') (\<lambda>_.
             if e = AMQPError \<or> e = AMQPConnectionError
             then and_then (logger_call ''error'') (\<lambda>_. raise_exc e)
             else raise_exc e))"

text \<open>
  The collaborators that are not part of the repository's files: \<open>json.loads\<close>
  (\<open>None\<close> when it raises \<open>JSONDecodeError\<close>, a \<open>ValueError\<close>), \<open>validate_message_schema\<close>
  and the application callback (each returns, raises \<open>ValueError\<close> or raises another
  exception), and the string \<open>str(uuid.uuid4())\<close> yields.
\<close>

datatype outcome = Returns | RaisesValueError | RaisesOther

record 'p collaborators =
  json_loads :: "string \<Rightarrow> 'p option"
  validate_message_schema :: "'p \<Rightarrow> outcome"
  uuid4 :: string

definition deserialize_and_validate_message ::
  "'p collaborators \<Rightarrow> message \<Rightarrow> ('p, 'p) io" where
  "deserialize_and_validate_message w m =
     (case json_loads w (body m) of
        None \<Rightarrow> raise_exc ValueError
      | Some message_data \<Rightarrow>
          (case validate_message_schema w message_data of
             Returns \<Rightarrow> return_io message_data
           | RaisesValueError \<Rightarrow> raise_exc ValueError
           | RaisesOther \<Rightarrow> raise_exc OtherException))"

text \<open>
  \<open>_handle_failed_message\<close>. \<open>read_retries\<close> is its first line,
  \<open>(message.headers or {}).get("x-retries", 0)\<close>. \<open>retries < self.max_retries\<close> raises \<open>TypeError\<close> when the
  header holds a string or \<open>None\<close>. The retry branch calls \<open>self.logger.warning\<close>, the
  dead-letter branch \<open>self.logger.warn\<close>. Both branches publish through
  \<open>self.channel.exchange(name).publish(message)\<close>: the attribute \<open>exchange\<close> of the channel
  is read before the message is built.
\<close>

definition read_retries :: "message \<Rightarrow> hval" where
  "read_retries m =
     dict_get (case headers m of None \<Rightarrow> [] | Some h \<Rightarrow> h) ''x-retries'' (HInt 0)"

definition handle_failed_message ::
  "EventSubscriber \<Rightarrow> message \<Rightarrow> hval \<Rightarrow> ('p, unit) io" where
  "handle_failed_message s m request_id =
     (case read_retries m of
        HInt n \<Rightarrow>
          if n < max_retries s then
            (let retries = n + 1 in
             and_then (perform (Sleep (py_pow2 retries))) (\<lambda>_.
             and_then (logger_call ''warning'') (\<lambda>_.
             and_then (channel_attr ''exchange'') (\<lambda>_.
             perform (Publish (retry_exchange s) (Some ''retry_queue'')
                        \<lparr> body = body m,
                          headers = Some [(''x-retries'', HInt retries),
                                          (''request_id'', request_id)] \<rparr>)))))
          else
            and_then (logger_call ''warn'') (\<lambda>_.
            and_then (channel_attr ''exchange'') (\<lambda>_.
            perform (Publish (dead_letter_exchange s) None
                       \<lparr> body = body m,
                         headers = Some [(''request_id'', request_id)] \<rparr>)))
      | HStr v \<Rightarrow> raise_exc TypeError
      | HNone \<Rightarrow> raise_exc TypeError)"

text \<open>The request id of a delivery: the first statement of \<open>on_message\<close>.\<close>

definition get_request_id :: "'p collaborators \<Rightarrow> message \<Rightarrow> ('p, hval) io" where
  "get_request_id w m =
     (if truthy (headers m)
      then return_io (dict_get (case headers m of None \<Rightarrow> [] | Some h \<Rightarrow> h) ''request_id'' HNone)
      else and_then (perform Uuid4) (\<lambda>_. return_io (HStr (uuid4 w))))"

definition invoke :: "('p \<Rightarrow> hval \<Rightarrow> outcome) \<Rightarrow> 'p \<Rightarrow> hval \<Rightarrow> ('p, unit) io" where
  "invoke callback message_data request_id =
     and_then (perform (CallbackCall message_data request_id)) (\<lambda>_.
       case callback message_data request_id of
         Returns \<Rightarrow> return_io ()
       | RaisesValueError \<Rightarrow> raise_exc ValueError
       | RaisesOther \<Rightarrow> raise_exc OtherException)"

text \<open>
  \<open>async with message.process()\<close>: the delivery is acknowledged when the block ends
  normally and rejected when an exception leaves it, which is then re-raised.
\<close>

definition process :: "('p, unit) io \<Rightarrow> ('p, unit) io" where
  "process m =
     (case m of
        (t, Inr x) \<Rightarrow> (t @ [Ack], Inr x)
      | (t, Inl e) \<Rightarrow> (t @ [Reject], Inl e))"

text \<open>
  \<open>on_message\<close>, the function defined inside \<open>_consume_message\<close>: what a delivery would run
  if this function were the registered consumer. Computing the request id cannot raise, so
  it is bound before the \<open>try\<close> body; an exception raised inside a handler leaves the
  \<open>try\<close> statement.
\<close>

definition on_message ::
  "EventSubscriber \<Rightarrow> 'p collaborators \<Rightarrow> ('p \<Rightarrow> hval \<Rightarrow> outcome) \<Rightarrow> message \<Rightarrow> ('p, unit) io" where
  "on_message s w callback m =
     process
       (and_then (get_request_id w m) (\<lambda>request_id.
          try_except
            (and_then (logger_call ''log'') (\<lambda>_.
             and_then (deserialize_and_validate_message w m) (\<lambda>message_data.
             invoke callback message_data request_id)))
            (\<lambda>e. if e = ValueError
                  then and_then (logger_call ''error'') (\<lambda>_.
                         handle_failed_message s m request_id)
                  else and_then (logger_call ''error'') (\<lambda>_.
                         handle_failed_message s m request_id))))"

text \<open>
  A delivery to the consumer that \<open>subscribe_events\<close> registered. An \<open>async\<close> function is
  called with the message; a coroutine object is not callable, so the call raises
  \<open>TypeError\<close> and nothing of \<open>on_message\<close> runs.
\<close>

definition deliver ::
  "EventSubscriber \<Rightarrow> 'p collaborators \<Rightarrow> ('p \<Rightarrow> hval \<Rightarrow> outcome) \<Rightarrow> message \<Rightarrow> ('p, unit) io" where
  "deliver s w callback m =
     (case consume_message_unawaited of
        AsyncFunction \<Rightarrow> on_message s w callback m
      | CoroutineObject \<Rightarrow> raise_exc TypeError)"

section \<open>Reading a trace\<close>

text \<open>The delays slept, the envelopes published and the callback invocations of a trace.\<close>

fun sleeps :: "'p effect list \<Rightarrow> delay list" where
  "sleeps [] = []"
| "sleeps (Sleep d # t) = d # sleeps t"
| "sleeps (e # t) = sleeps t"

fun published :: "'p effect list \<Rightarrow> (string \<times> string option \<times> message) list" where
  "published [] = []"
| "published (Publish ex rk msg # t) = (ex, rk, msg) # published t"
| "published (e # t) = published t"

fun callback_calls :: "'p effect list \<Rightarrow> ('p \<times> hval) list" where
  "callback_calls [] = []"
| "callback_calls (CallbackCall d r # t) = (d, r) # callback_calls t"
| "callback_calls (e # t) = callback_calls t"

text \<open>
  The body of a delivery parses as JSON and passes schema validation.
\<close>

definition parses_and_validates :: "'p collaborators \<Rightarrow> message \<Rightarrow> bool" where
  "parses_and_validates w m =
     (case json_loads w (body m) of
        None \<Rightarrow> False
      | Some d \<Rightarrow> validate_message_schema w d = Returns)"

text \<open>The request id \<open>on_message\<close> works with: the value \<open>get_request_id\<close> returns.\<close>

definition request_id_of :: "'p collaborators \<Rightarrow> message \<Rightarrow> hval" where
  "request_id_of w m = (case snd (get_request_id w m) of Inr r \<Rightarrow> r | Inl e \<Rightarrow> HNone)"

text \<open>
  Deliveries used as examples: a body that is not JSON, redelivered with retry count \<open>n\<close>
  in its headers, and collaborators for which only the body \<open>{}\<close> parses (to payload 0).
\<close>

definition redelivery :: "int \<Rightarrow> message" where
  "redelivery n =
     \<lparr> body = ''not json'',
       headers = Some [(''x-retries'', HInt n), (''request_id'', HStr ''r1'')] \<rparr>"

definition demo_collaborators :: "nat collaborators" where
  "demo_collaborators =
     \<lparr> json_loads = (\<lambda>b. if b = ''{}'' then Some 0 else None),
       validate_message_schema = (\<lambda>d. Returns),
       uuid4 = ''u1'' \<rparr>"

section \<open>RedisPubSubManager and ConnectionManager (src/managers)\<close>

text \<open>
  A WebSocket and a \<open>PubSub\<close> object are known by reference. The state holds the
  registry \<open>active_connections\<close>, the attribute \<open>pubsub_client.pubsub\<close> (the reference
  of the current \<open>PubSub\<close> object, \<open>None\<close> before the first \<open>connect\<close>), the store of
  \<open>PubSub\<close> objects (each the set of channels it is subscribed to) and the listener tasks
  \<open>asyncio.create_task\<close> has started, each with the \<open>PubSub\<close> object it polls. The code
  keeps no handle of a task. The Redis client object that \<open>RedisPubSubManager.connect\<close>
  also replaces is read by \<open>_publish\<close> only and is left out. The calls to Redis and
  \<open>websocket.accept\<close> are taken to succeed.
\<close>

type_synonym websocket = nat

type_synonym pubsub_ref = nat

record manager =
  active_connections :: "string \<rightharpoonup> websocket list"
  pubsub :: "pubsub_ref option"
  pubsub_objects :: "string set list"
  listener_tasks :: "pubsub_ref list"

definition ConnectionManager_init :: manager where
  "ConnectionManager_init =
     \<lparr> active_connections = Map.empty, pubsub = None, pubsub_objects = [],
       listener_tasks = [] \<rparr>"

text \<open>
  \<open>RedisPubSubManager.connect\<close>: \<open>self.pubsub = self.redis_connection.pubsub()\<close> makes a
  new \<open>PubSub\<close> object, subscribed to nothing, at every call. \<open>subscribe\<close> and
  \<open>unsubscribe\<close> act on the object \<open>self.pubsub\<close> refers to and raise \<open>AttributeError\<close>
  while it is \<open>None\<close>; a reference handed out by \<open>connect\<close> always points into the store
  (a list update outside it would change nothing).
\<close>

definition RedisPubSubManager_connect :: "manager \<Rightarrow> manager" where
  "RedisPubSubManager_connect s =
     s\<lparr> pubsub_objects := pubsub_objects s @ [{}],
        pubsub := Some (length (pubsub_objects s)) \<rparr>"

definition RedisPubSubManager_subscribe ::
  "string \<Rightarrow> manager \<Rightarrow> (error + pubsub_ref) \<times> manager" where
  "RedisPubSubManager_subscribe room_id s =
     (case pubsub s of
        None \<Rightarrow> (Inl AttributeError, s)
      | Some p \<Rightarrow>
          (Inr p,
           s\<lparr> pubsub_objects :=
                (pubsub_objects s)[p := insert room_id (pubsub_objects s ! p)] \<rparr>))"

definition RedisPubSubManager_unsubscribe ::
  "string \<Rightarrow> manager \<Rightarrow> error option \<times> manager" where
  "RedisPubSubManager_unsubscribe room_id s =
     (case pubsub s of
        None \<Rightarrow> (Some AttributeError, s)
      | Some p \<Rightarrow>
          (None,
           s\<lparr> pubsub_objects :=
                (pubsub_objects s)[p := pubsub_objects s ! p - {room_id}] \<rparr>))"

text \<open>
  \<open>ConnectionManager.connect\<close>. \<open>connections.get(auction_id)\<close> is falsy for a missing
  room and for an empty list.
\<close>

definition connect :: "websocket \<Rightarrow> string \<Rightarrow> manager \<Rightarrow> error option \<times> manager" where
  "connect websocket auction_id s =
     (case active_connections s auction_id of
        Some (c # cs) \<Rightarrow>
          (None, s\<lparr> active_connections :=
                       (active_connections s)(auction_id \<mapsto> (c # cs) @ [websocket]) \<rparr>)
      | _ \<Rightarrow>
          (let s1 = s\<lparr> active_connections :=
                        (active_connections s)(auction_id \<mapsto> [websocket]) \<rparr>;
               s2 = RedisPubSubManager_connect s1
           in case RedisPubSubManager_subscribe auction_id s2 of
                (Inl e, s3) \<Rightarrow> (Some e, s3)
              | (Inr pubsub_subscriber, s3) \<Rightarrow>
                  (None, s3\<lparr> listener_tasks := listener_tasks s3 @ [pubsub_subscriber] \<rparr>)))"

text \<open>
  \<open>ConnectionManager.disconnect\<close>. Indexing a missing room raises \<open>KeyError\<close>;
  \<open>list.remove\<close> of an absent element raises \<open>ValueError\<close>, and otherwise removes the
  first occurrence.
\<close>

definition disconnect :: "websocket \<Rightarrow> string \<Rightarrow> manager \<Rightarrow> error option \<times> manager" where
  "disconnect websocket auction_id s =
     (case active_connections s auction_id of
        None \<Rightarrow> (Some KeyError, s)
      | Some conns \<Rightarrow>
          if websocket \<notin> set conns then (Some ValueError, s)
          else
            (let s1 = s\<lparr> active_connections :=
                          (active_connections s)(auction_id \<mapsto> remove1 websocket conns) \<rparr>
             in if length (remove1 websocket conns) = 0
                then RedisPubSubManager_unsubscribe auction_id
                       (s1\<lparr> active_connections := (active_connections s1)(auction_id := None) \<rparr>)
                else (None, s1)))"

definition has_active_connection :: "manager \<Rightarrow> string \<Rightarrow> bool" where
  "has_active_connection s auction_id =
     (case active_connections s auction_id of
        None \<Rightarrow> False
      | Some conns \<Rightarrow> conns \<noteq> [])"

text \<open>
  The fan-out of one message, the \<open>for socket in all_sockets\<close> loop: \<open>send_ok socket data\<close>
  says whether \<open>socket.send_text(data)\<close> returns; the result is the list of sends that were
  made and the exception that ended the loop, if any.
\<close>

fun send_to_all ::
  "(websocket \<Rightarrow> string \<Rightarrow> bool) \<Rightarrow> websocket list \<Rightarrow> string
     \<Rightarrow> (websocket \<times> string) list \<times> error option" where
  "send_to_all send_ok [] d = ([], None)"
| "send_to_all send_ok (socket # rest) d =
     (if send_ok socket d
      then (case send_to_all send_ok rest d of (sent, r) \<Rightarrow> ((socket, d) # sent, r))
      else ([], Some SendError))"

record pubsub_message =
  msg_channel :: string
  msg_data :: string

text \<open>
  \<open>_pubsub_data_reader\<close>, the listener task, run on the results of its successive
  \<open>get_message\<close> polls (\<open>None\<close> when nothing is pending) while the registry is \<open>s\<close>. The
  loop has no exit: the result \<open>None\<close> says that the task is still polling after the polls
  given, \<open>Some e\<close> that exception \<open>e\<close> ended the task.
\<close>

fun pubsub_data_reader ::
  "(websocket \<Rightarrow> string \<Rightarrow> bool) \<Rightarrow> manager \<Rightarrow> pubsub_message option list
     \<Rightarrow> (websocket \<times> string) list \<times> error option" where
  "pubsub_data_reader send_ok s [] = ([], None)"
| "pubsub_data_reader send_ok s (None # polls) = pubsub_data_reader send_ok s polls"
| "pubsub_data_reader send_ok s (Some message # polls) =
     (case active_connections s (msg_channel message) of
        None \<Rightarrow> ([], Some KeyError)
      | Some all_sockets \<Rightarrow>
          (case send_to_all send_ok all_sockets (msg_data message) of
             (sent, Some e) \<Rightarrow> (sent, Some e)
           | (sent, None) \<Rightarrow>
               (case pubsub_data_reader send_ok s polls of
                  (sent', r) \<Rightarrow> (sent @ sent', r))))"

text \<open>
  The manager as a state machine: each \<open>connect\<close> and \<open>disconnect\<close> call is one step (a
  call that raises leaves the state it has reached), starting from the fresh manager.
\<close>

datatype action = Connect websocket string | Disconnect websocket string

fun step :: "manager \<Rightarrow> action \<Rightarrow> manager" where
  "step s (Connect w a) = snd (connect w a s)"
| "step s (Disconnect w a) = snd (disconnect w a s)"

definition run :: "action list \<Rightarrow> manager" where
  "run acts = foldl step ConnectionManager_init acts"

text \<open>
  A room has an active backbone subscription read by a listener: some listener task polls
  a \<open>PubSub\<close> object that is subscribed to the room's channel.
\<close>

definition has_listener :: "manager \<Rightarrow> string \<Rightarrow> bool" where
  "has_listener s a =
     (\<exists>p \<in> set (listener_tasks s). p < length (pubsub_objects s) \<and> a \<in> pubsub_objects s ! p)"

text \<open>
  What every state reached by \<open>connect\<close> and \<open>disconnect\<close> calls satisfies: no room record
  holds an empty list; every room with a record has a subscription read by a listener;
  while a room has a record the manager has a current \<open>PubSub\<close> object; and the current
  reference points into the store.
\<close>

definition manager_inv :: "manager \<Rightarrow> bool" where
  "manager_inv s =
     ((\<forall>a cs. active_connections s a = Some cs \<longrightarrow> cs \<noteq> []) \<and>
      (\<forall>a. active_connections s a \<noteq> None \<longrightarrow> has_listener s a) \<and>
      (\<forall>a. active_connections s a \<noteq> None \<longrightarrow> pubsub s \<noteq> None) \<and>
      (\<forall>p. pubsub s = Some p \<longrightarrow> p < length (pubsub_objects s)))"

text \<open>The message \<open>SOLD\<close> on the channel of room \<open>a\<close>.\<close>

definition sold :: pubsub_message where
  "sold = \<lparr> msg_channel = ''a'', msg_data = ''SOLD'' \<rparr>"

section \<open>Properties of EventSubscriber\<close>

subsection \<open>Reading traces\<close>

lemma sleeps_append: "sleeps (a @ b) = sleeps a @ sleeps b"
  by (induction a rule: sleeps.induct) simp_all







subsection \<open>The logger\<close>

lemma logger_call_known:
  "logger_call ''log'' = ([LoggerCall ''log''], Inr ())"
  "logger_call ''warn'' = ([LoggerCall ''warn''], Inr ())"
  "logger_call ''error'' = ([LoggerCall ''error''], Inr ())"
  by (simp_all add: logger_call_def AuditLogger_def perform_def)

text \<open>\<open>AuditLogger\<close> has a method \<open>warn\<close> and no method \<open>warning\<close>.\<close>

lemma logger_call_warning: "logger_call ''warning'' = ([], Inl AttributeError)"
  by (simp add: logger_call_def AuditLogger_def raise_exc_def)

text \<open>A channel has no attribute \<open>exchange\<close>.\<close>

lemma channel_attr_exchange: "channel_attr ''exchange'' = ([], Inl AttributeError)"
  by (simp add: channel_attr_def channel_attributes_def raise_exc_def)

subsection \<open>The three ways \<open>_handle_failed_message\<close> ends\<close>

lemma handle_failed_message_retry:
  assumes "read_retries m = HInt n" and "n < max_retries s"
  shows "handle_failed_message s m rid = ([Sleep (py_pow2 (n + 1))], Inl AttributeError)"
  using assms
  by (simp add: handle_failed_message_def logger_call_warning and_then_def perform_def)

lemma handle_failed_message_dead_letter:
  assumes "read_retries m = HInt n" and "\<not> n < max_retries s"
  shows "handle_failed_message s m rid = ([LoggerCall ''warn''], Inl AttributeError)"
  using assms
  by (simp add: handle_failed_message_def logger_call_known channel_attr_exchange
        and_then_def perform_def)

lemma handle_failed_message_type_error:
  assumes "\<forall>n. read_retries m \<noteq> HInt n"
  shows "handle_failed_message s m rid = ([], Inl TypeError)"
  using assms
  by (cases "read_retries m") (simp_all add: handle_failed_message_def raise_exc_def)

lemmas hfm_unfold =
  handle_failed_message_def logger_call_known logger_call_warning channel_attr_exchange
  and_then_def perform_def raise_exc_def



lemma published_handle_failed_message:
  "published (fst (handle_failed_message s m rid)) = []"
  by (simp add: hfm_unfold split: hval.splits)


subsection \<open>The request id\<close>








subsection \<open>The two shapes of \<open>on_message\<close>\<close>










lemmas run_simps =
  on_message_def get_request_id_def truthy_def dict_get_def return_io_def raise_exc_def
  perform_def and_then_def try_except_def process_def logger_call_def AuditLogger_def
  deserialize_and_validate_message_def invoke_def handle_failed_message_def read_retries_def
  py_pow2_def EventSubscriber_init_def request_id_of_def parses_and_validates_def
  demo_collaborators_def redelivery_def broker_def subscribe_events_def
  EventSubscriber_connect_def declare_dead_letter_queue_def
  channel_attr_def channel_attributes_def module_attr_def aio_pika_exports_def
  consume_message_unawaited_def deliver_def

subsection \<open>Retry and dead-letter routing\<close>

text \<open>
  Claim C1 says that every failed delivery with a retry count below \<open>max_retries\<close> is
  republished to the retry exchange with the count raised by one, so that the sixth failure
  is dead-lettered. The code does not republish: the retry branch sleeps and then calls
  \<open>self.logger.warning\<close>, a method \<open>AuditLogger\<close> does not have (its method is \<open>warn\<close>,
  which the dead-letter branch calls), so \<open>AttributeError\<close> leaves the handler before the
  publish. Evaluated on \<open>on_message\<close> called with the first delivery of a body that is not
  JSON: the trace has the sleep of 2 seconds, no \<open>Publish\<close>, and the delivery is rejected.
\<close>

theorem retry_branch_raises_before_republishing:
  "on_message (EventSubscriber_init ''main'' ''dlx'') demo_collaborators (\<lambda>d r. Returns)
     \<lparr> body = ''not json'', headers = None \<rparr>
   = ([Uuid4, LoggerCall ''log'', LoggerCall ''error'', Sleep (Seconds 2), Reject],
      Inl AttributeError)"
  by (simp add: run_simps)

text \<open>
  Claim C3: on a retry cycle, that is when the retry count \<open>r\<close> read from the delivery is
  below \<open>max_retries\<close> (and not negative), the first thing the handler does is sleep
  \<open>2 ^ (r + 1)\<close> seconds, the power of the incremented count, and it sleeps once; the delay
  of a delivery with a larger count is strictly larger.
\<close>

theorem backoff_delay_power_of_two:
  assumes "read_retries m = HInt r" and "0 \<le> r" and "r < max_retries s"
  shows "(\<exists>rest. fst (handle_failed_message s m rid) = Sleep (Seconds (2 ^ nat (r + 1))) # rest
                \<and> sleeps rest = [])
       \<and> (\<forall>m' r' rid'. read_retries m' = HInt r' \<and> r < r' \<and> r' < max_retries s \<longrightarrow>
            (\<exists>b. sleeps (fst (handle_failed_message s m' rid')) = [Seconds b]
                 \<and> 2 ^ nat (r + 1) < b))"
proof (intro conjI allI impI)
  show "\<exists>rest. fst (handle_failed_message s m rid) = Sleep (Seconds (2 ^ nat (r + 1))) # rest
                \<and> sleeps rest = []"
    using assms by (simp add: handle_failed_message_retry py_pow2_def)
next
  fix m' r' rid'
  assume a: "read_retries m' = HInt r' \<and> r < r' \<and> r' < max_retries s"
  then have "0 \<le> r' + 1" using assms(2) by simp
  then have s: "sleeps (fst (handle_failed_message s m' rid')) = [Seconds (2 ^ nat (r' + 1))]"
    using a by (simp add: handle_failed_message_retry py_pow2_def)
  have "nat (r + 1) < nat (r' + 1)" using a assms(2) by simp
  then have "(2::nat) ^ nat (r + 1) < 2 ^ nat (r' + 1)" by simp
  with s show "\<exists>b. sleeps (fst (handle_failed_message s m' rid')) = [Seconds b]
                 \<and> 2 ^ nat (r + 1) < b" by blast
qed

text \<open>
  With \<open>max_retries = 5\<close>: the first delivery (no headers, count 0) sleeps 2 seconds, and
  deliveries carrying the counts 1, 2, 3, 4 sleep 4, 8, 16, 32 seconds.
\<close>

theorem backoff_delay_power_of_two_witness:
  "fst (handle_failed_message (EventSubscriber_init ''main'' ''dlx'')
          \<lparr> body = ''not json'', headers = None \<rparr> (HStr ''r1''))
     = [Sleep (Seconds 2) :: nat effect]
   \<and> map (\<lambda>n. sleeps (fst (handle_failed_message (EventSubscriber_init ''main'' ''dlx'')
                              (redelivery n) (HStr ''r1'') :: (nat, unit) io))) [1, 2, 3, 4]
     = [[Seconds 4], [Seconds 8], [Seconds 16], [Seconds 32]]"
  using backoff_delay_power_of_two [of "\<lparr> body = ''not json'', headers = None \<rparr>" 0
          "EventSubscriber_init ''main'' ''dlx''" "HStr ''r1''", where ?'a = nat and ?'b = nat]
  by (simp add: run_simps)

text \<open>
  Claim C5 says that a dead-lettered message is published to the dead-letter exchange with
  its body and its headers. The code does not publish it: for a delivery whose retry count
  is not below \<open>max_retries\<close> (here \<open>x-retries = 5\<close>), the handler logs the warning and then
  reads \<open>self.channel.exchange\<close>, an attribute the channel does not have, so
  \<open>AttributeError\<close> leaves the handler before the message is built or published.
\<close>

theorem dead_letter_branch_raises_before_publishing:
  "(handle_failed_message (EventSubscriber_init ''main'' ''dlx'') (redelivery 5) (HStr ''r1'')
      :: (nat, unit) io)
   = ([LoggerCall ''warn''], Inl AttributeError)"
  by (simp add: run_simps)

subsection \<open>Deliveries and the callback\<close>

text \<open>
  Claim C4 says that the callback is invoked exactly once for a delivered message whose
  body parses and validates. The code never invokes it: \<open>subscribe_events\<close> hands
  \<open>queue.consume\<close> the coroutine object \<open>self._consume_message(callback)\<close>, so a delivery
  calls an object that is not callable. Evaluated on the delivery of the body \<open>{}\<close>, which
  parses and validates: \<open>TypeError\<close>, and no callback invocation.
\<close>

theorem delivery_never_reaches_callback:
  "parses_and_validates demo_collaborators \<lparr> body = ''{}'', headers = None \<rparr>
   \<and> deliver (EventSubscriber_init ''main'' ''dlx'') demo_collaborators (\<lambda>d r. Returns)
         \<lparr> body = ''{}'', headers = None \<rparr> = ([], Inl TypeError)
   \<and> callback_calls (fst (deliver (EventSubscriber_init ''main'' ''dlx'') demo_collaborators
         (\<lambda>d r. Returns) \<lparr> body = ''{}'', headers = None \<rparr>)) = []"
  by (simp add: run_simps)

subsection \<open>Queue declaration\<close>

text \<open>
  Claim C7: on a broker that accepts every operation, \<open>connect\<close> declares the main exchange
  as a fanout exchange, and \<open>subscribe_events\<close> then declares the queue durable and not
  auto-deleted with exactly the arguments \<open>x-message-ttl = 300000\<close>,
  \<open>x-dead-letter-exchange\<close> = the subscriber's dead-letter exchange and
  \<open>x-max-length = 1000\<close>, binds it to the main exchange and consumes with \<open>no_ack = False\<close>
  (the consumer it hands over being the coroutine object).
\<close>

theorem subscribe_events_declares_queue:
  "EventSubscriber_connect (\<lambda>op. None) (EventSubscriber_init ex dlx) =
     ([ConnectRobust, OpenChannel,
       DeclareExchange ex ''fanout'', DeclareExchange dlx ''fanout'',
       DeclareExchange ''retry_exchange'' ''direct'',
       DeclareQueue ''dead_letter_queue'' True None [(''x-message-ttl'', HInt 300000)],
       BindQueue ''dead_letter_queue'' dlx],
      Inr ((EventSubscriber_init ex dlx)\<lparr>connection := True, channel := True\<rparr>))
   \<and> subscribe_events (\<lambda>op. None)
        ((EventSubscriber_init ex dlx)\<lparr>connection := True, channel := True\<rparr>) queue_name =
     ([DeclareQueue queue_name True (Some False)
         [(''x-message-ttl'', HInt 300000),
          (''x-dead-letter-exchange'', HStr dlx),
          (''x-max-length'', HInt 1000)],
       BindQueue queue_name ex,
       Consume queue_name CoroutineObject False],
      Inr ())"
  by (simp add: run_simps)

subsection \<open>Where the request id comes from\<close>



section \<open>Properties of ConnectionManager\<close>

subsection \<open>What \<open>connect\<close> and \<open>disconnect\<close> return\<close>


lemma connect_new:
  assumes "active_connections s a = None \<or> active_connections s a = Some []"
  shows "connect w a s =
     (None, s\<lparr> active_connections := (active_connections s)(a \<mapsto> [w]),
               pubsub := Some (length (pubsub_objects s)),
               pubsub_objects := pubsub_objects s @ [{a}],
               listener_tasks := listener_tasks s @ [length (pubsub_objects s)] \<rparr>)"
  using assms
  by (auto simp: connect_def RedisPubSubManager_connect_def RedisPubSubManager_subscribe_def Let_def)

lemma connect_existing:
  assumes "active_connections s a = Some (c # cs)"
  shows "connect w a s =
     (None, s\<lparr> active_connections := (active_connections s)(a \<mapsto> (c # cs) @ [w]) \<rparr>)"
  using assms by (simp add: connect_def)

lemma disconnect_missing_room:
  assumes "active_connections s a = None"
  shows "disconnect w a s = (Some KeyError, s)"
  using assms by (simp add: disconnect_def)

lemma disconnect_absent_connection:
  assumes "active_connections s a = Some cs" and "w \<notin> set cs"
  shows "disconnect w a s = (Some ValueError, s)"
  using assms by (simp add: disconnect_def)

lemma disconnect_not_last:
  assumes "active_connections s a = Some cs" and "w \<in> set cs" and "remove1 w cs \<noteq> []"
  shows "disconnect w a s =
     (None, s\<lparr> active_connections := (active_connections s)(a \<mapsto> remove1 w cs) \<rparr>)"
  using assms by (simp add: disconnect_def)

lemma disconnect_last:
  assumes "active_connections s a = Some cs" and "w \<in> set cs" and "remove1 w cs = []"
      and "pubsub s = Some p"
  shows "disconnect w a s =
     (None, s\<lparr> active_connections := (active_connections s)(a := None),
               pubsub_objects := (pubsub_objects s)[p := pubsub_objects s ! p - {a}] \<rparr>)"
  using assms by (simp add: disconnect_def RedisPubSubManager_unsubscribe_def)

subsection \<open>The invariant of the reachable states\<close>

lemma manager_inv_init: "manager_inv ConnectionManager_init"
  by (simp add: manager_inv_def ConnectionManager_init_def)

lemma has_listener_grow:
  assumes "has_listener s a"
  shows "has_listener (s\<lparr> active_connections := ac, pubsub := ps,
               pubsub_objects := pubsub_objects s @ extra,
               listener_tasks := listener_tasks s @ added \<rparr>) a"
  using assms by (auto simp: has_listener_def nth_append)

lemma has_listener_registry:
  "has_listener (s\<lparr> active_connections := ac \<rparr>) a = has_listener s a"
  by (simp add: has_listener_def)

lemma has_listener_unsubscribe_other:
  assumes "has_listener s b" and "b \<noteq> a"
  shows "has_listener (s\<lparr> active_connections := ac,
               pubsub_objects := (pubsub_objects s)[p := pubsub_objects s ! p - {a}] \<rparr>) b"
proof -
  from assms(1) obtain q where q: "q \<in> set (listener_tasks s)" "q < length (pubsub_objects s)"
      "b \<in> pubsub_objects s ! q"
    by (auto simp: has_listener_def)
  have "b \<in> (pubsub_objects s)[p := pubsub_objects s ! p - {a}] ! q"
    using q assms(2) by (cases "q = p") simp_all
  with q show ?thesis by (auto simp: has_listener_def)
qed

lemma manager_inv_connect:
  assumes "manager_inv s"
  shows "manager_inv (snd (connect w a s))"
proof (cases "active_connections s a")
  case None
  have new: "has_listener (s\<lparr> active_connections := (active_connections s)(a \<mapsto> [w]),
               pubsub := Some (length (pubsub_objects s)),
               pubsub_objects := pubsub_objects s @ [{a}],
               listener_tasks := listener_tasks s @ [length (pubsub_objects s)] \<rparr>) a"
    by (simp add: has_listener_def)
  show ?thesis
    using assms None new
    by (simp add: connect_new manager_inv_def has_listener_grow)
next
  case (Some cs)
  with assms obtain c cs' where cs: "cs = c # cs'"
    by (cases cs) (auto simp: manager_inv_def)
  show ?thesis
    using assms Some cs
    by (auto simp add: connect_existing manager_inv_def has_listener_registry)
qed

lemma manager_inv_disconnect:
  assumes "manager_inv s"
  shows "manager_inv (snd (disconnect w a s))"
proof (cases "active_connections s a")
  case None
  then show ?thesis using assms by (simp add: disconnect_missing_room)
next
  case (Some cs)
  show ?thesis
  proof (cases "w \<in> set cs")
    case False
    then show ?thesis using assms Some by (simp add: disconnect_absent_connection)
  next
    case True
    show ?thesis
    proof (cases "remove1 w cs = []")
      case False
      show ?thesis
        using assms Some True False
        by (auto simp add: disconnect_not_last manager_inv_def has_listener_registry)
    next
      case empty: True
      from assms Some obtain p where p: "pubsub s = Some p"
        by (auto simp: manager_inv_def)
      show ?thesis
        using assms Some True empty p
        by (simp add: disconnect_last manager_inv_def has_listener_unsubscribe_other)
    qed
  qed
qed

lemma manager_inv_step: "manager_inv s \<Longrightarrow> manager_inv (step s act)"
  by (cases act) (simp_all add: manager_inv_connect manager_inv_disconnect)

lemma manager_inv_run: "manager_inv (run acts)"
  unfolding run_def
  by (induction acts rule: rev_induct) (simp_all add: manager_inv_init manager_inv_step)

lemmas manager_simps =
  run_def connect_def disconnect_def RedisPubSubManager_connect_def
  RedisPubSubManager_subscribe_def RedisPubSubManager_unsubscribe_def
  ConnectionManager_init_def has_active_connection_def has_listener_def Let_def sold_def

subsection \<open>Rooms, subscriptions and listener tasks\<close>

text \<open>
  Claim C2, as amended. In every state reached from the fresh manager by \<open>connect\<close> and
  \<open>disconnect\<close> calls: a room has a record exactly when its connection set is non-empty;
  every room whose connection set is non-empty has an active backbone subscription polled
  by a listener task; and disconnecting the last connection of a room returns normally,
  removes the room record, removes the room's channel from the manager's current \<open>PubSub\<close>
  object and leaves the listener tasks as they were (none is cancelled).
\<close>

theorem registry_and_listener_after_connects_and_disconnects:
  "(\<forall>a. (active_connections (run acts) a \<noteq> None) = has_active_connection (run acts) a)
   \<and> (\<forall>a. has_active_connection (run acts) a \<longrightarrow> has_listener (run acts) a)
   \<and> (\<forall>w a. active_connections (run acts) a = Some [w] \<longrightarrow>
         (\<exists>s' p. disconnect w a (run acts) = (None, s')
            \<and> active_connections s' a = None
            \<and> pubsub (run acts) = Some p \<and> p < length (pubsub_objects s')
            \<and> a \<notin> pubsub_objects s' ! p
            \<and> listener_tasks s' = listener_tasks (run acts)))"
proof (intro conjI allI impI)
  fix a
  show "(active_connections (run acts) a \<noteq> None) = has_active_connection (run acts) a"
    using manager_inv_run [of acts]
    by (auto simp: manager_inv_def has_active_connection_def split: option.splits)
next
  fix a
  assume "has_active_connection (run acts) a"
  then have "active_connections (run acts) a \<noteq> None"
    by (auto simp: has_active_connection_def split: option.splits)
  then show "has_listener (run acts) a"
    using manager_inv_run [of acts] by (simp add: manager_inv_def)
next
  fix w a
  assume one: "active_connections (run acts) a = Some [w]"
  then obtain p where p: "pubsub (run acts) = Some p" "p < length (pubsub_objects (run acts))"
    using manager_inv_run [of acts] by (auto simp: manager_inv_def)
  have "disconnect w a (run acts) =
     (None, (run acts)\<lparr> active_connections := (active_connections (run acts))(a := None),
               pubsub_objects :=
                 (pubsub_objects (run acts))[p := pubsub_objects (run acts) ! p - {a}] \<rparr>)"
    using one p(1) by (simp add: disconnect_last)
  then show "\<exists>s' p. disconnect w a (run acts) = (None, s')
            \<and> active_connections s' a = None
            \<and> pubsub (run acts) = Some p \<and> p < length (pubsub_objects s')
            \<and> a \<notin> pubsub_objects s' ! p
            \<and> listener_tasks s' = listener_tasks (run acts)"
    using p by simp
qed

theorem registry_and_listener_after_connects_and_disconnects_witness:
  "has_active_connection (run [Connect 1 ''a'', Connect 2 ''a'', Disconnect 1 ''a'']) ''a''
   \<and> has_listener (run [Connect 1 ''a'', Connect 2 ''a'', Disconnect 1 ''a'']) ''a''
   \<and> active_connections (run [Connect 1 ''a'', Connect 2 ''a'', Disconnect 1 ''a'']) ''a'' = Some [2]
   \<and> fst (disconnect 2 ''a'' (run [Connect 1 ''a'', Connect 2 ''a'', Disconnect 1 ''a''])) = None
   \<and> listener_tasks (snd (disconnect 2 ''a'' (run [Connect 1 ''a'', Connect 2 ''a'', Disconnect 1 ''a''])))
       = [0]"
  using registry_and_listener_after_connects_and_disconnects
          [of "[Connect 1 ''a'', Connect 2 ''a'', Disconnect 1 ''a'']"]
  by (simp add: manager_simps)

text \<open>
  Claim C2 as stated fails. After the last connection of room \<open>a\<close> disconnects while room
  \<open>b\<close> is active, room \<open>a\<close> has no connection and still has a subscription polled by a
  listener task: \<open>RedisPubSubManager.connect\<close> replaced the \<open>PubSub\<close> object when room \<open>b\<close>
  was activated, so the unsubscribe went to the new object. And with a single room, the
  listener task started by the first \<open>connect\<close> is still there after the last
  \<open>disconnect\<close>.
\<close>

theorem listener_outlives_room:
  "\<not> has_active_connection (run [Connect 1 ''a'', Connect 2 ''b'', Disconnect 1 ''a'']) ''a''
   \<and> has_listener (run [Connect 1 ''a'', Connect 2 ''b'', Disconnect 1 ''a'']) ''a''
   \<and> active_connections (run [Connect 1 ''a'', Disconnect 1 ''a'']) ''a'' = None
   \<and> listener_tasks (run [Connect 1 ''a'']) = [0]
   \<and> listener_tasks (run [Connect 1 ''a'', Disconnect 1 ''a'']) = [0]"
  by (simp add: manager_simps)

text \<open>
  Claim C8: \<open>has_active_connection\<close> is true exactly when the registry has a record for the
  room and the record's connection list is non-empty.
\<close>

theorem has_active_connection_iff:
  "has_active_connection s auction_id =
     (\<exists>conns. active_connections s auction_id = Some conns \<and> conns \<noteq> [])"
  by (simp add: has_active_connection_def split: option.splits)

text \<open>
  Claim C9: \<open>disconnect\<close> for a room without a record raises \<open>KeyError\<close>, and for a
  connection that is not in the room's list raises \<open>ValueError\<close>; in both cases the whole
  state (registry, subscriptions, listener tasks) is left as it was.
\<close>

theorem disconnect_raises_and_leaves_state:
  "(active_connections s a = None \<longrightarrow> disconnect w a s = (Some KeyError, s))
   \<and> (\<forall>conns. active_connections s a = Some conns \<and> w \<notin> set conns \<longrightarrow>
         disconnect w a s = (Some ValueError, s))"
  by (simp add: disconnect_def)

theorem disconnect_raises_and_leaves_state_witness:
  "disconnect 1 ''a'' ConnectionManager_init = (Some KeyError, ConnectionManager_init)
   \<and> disconnect 1 ''a'' (run [Connect 2 ''a'']) = (Some ValueError, run [Connect 2 ''a''])
   \<and> has_active_connection (run [Connect 2 ''a'']) ''a''
   \<and> has_listener (run [Connect 2 ''a'']) ''a''"
  using disconnect_raises_and_leaves_state [of ConnectionManager_init "''a''" 1]
        disconnect_raises_and_leaves_state [of "run [Connect 2 ''a'']" "''a''" 1]
  by (simp add: manager_simps)

subsection \<open>Fan-out by the room listener\<close>

lemma send_to_all_ok:
  "\<forall>x \<in> set socks. send_ok x d \<Longrightarrow>
     send_to_all send_ok socks d = (map (\<lambda>x. (x, d)) socks, None)"
  by (induction socks) simp_all

lemma send_to_all_fails:
  "\<forall>x \<in> set pre. send_ok x d \<Longrightarrow> \<not> send_ok bad d \<Longrightarrow>
     send_to_all send_ok (pre @ bad # post) d = (map (\<lambda>x. (x, d)) pre, Some SendError)"
  by (induction pre) simp_all

text \<open>
  Claim C6, as amended. When every send succeeds, the listener delivers the message to every
  registered connection in registration order and goes on with the next poll. When a send
  fails, the connections registered before the failing one have received the message, the
  failing one and those after it have not, and the exception ends the listener: whatever
  is polled afterwards is delivered to no one.
\<close>

theorem send_failure_ends_fanout_and_listener:
  "(active_connections s (msg_channel msg) = Some socks \<and>
      (\<forall>x \<in> set socks. send_ok x (msg_data msg)) \<longrightarrow>
        pubsub_data_reader send_ok s (Some msg # polls) =
          (map (\<lambda>x. (x, msg_data msg)) socks @ fst (pubsub_data_reader send_ok s polls),
           snd (pubsub_data_reader send_ok s polls)))
   \<and> (active_connections s (msg_channel msg) = Some (pre @ bad # post) \<and>
      (\<forall>x \<in> set pre. send_ok x (msg_data msg)) \<and> \<not> send_ok bad (msg_data msg) \<longrightarrow>
        pubsub_data_reader send_ok s (Some msg # polls) =
          (map (\<lambda>x. (x, msg_data msg)) pre, Some SendError))"
  by (simp add: send_to_all_ok send_to_all_fails split: prod.splits)

theorem send_failure_ends_fanout_and_listener_witness:
  "pubsub_data_reader (\<lambda>x d. x \<noteq> 2) (run [Connect 1 ''a'', Connect 2 ''a'', Connect 3 ''a''])
      [Some sold, Some sold] = ([(1, ''SOLD'')], Some SendError)
   \<and> pubsub_data_reader (\<lambda>x d. True) (run [Connect 1 ''a'', Connect 2 ''a'', Connect 3 ''a''])
      [Some sold] = ([(1, ''SOLD''), (2, ''SOLD''), (3, ''SOLD'')], None)"
  using send_failure_ends_fanout_and_listener
          [where s = "run [Connect 1 ''a'', Connect 2 ''a'', Connect 3 ''a'']" and msg = sold
             and socks = "[1, 2, 3]" and send_ok = "\<lambda>x d. True" and polls = "[]"
             and pre = "[1]" and bad = 2 and post = "[3]"]
        send_failure_ends_fanout_and_listener
          [where s = "run [Connect 1 ''a'', Connect 2 ''a'', Connect 3 ''a'']" and msg = sold
             and socks = "[1, 2, 3]" and send_ok = "\<lambda>x d. x \<noteq> 2" and polls = "[Some sold]"
             and pre = "[1]" and bad = 2 and post = "[3]"]
  by (simp add: manager_simps)

text \<open>
  Claim C6 as stated fails: with connections 1, 2, 3 in room \<open>a\<close> and a send that fails on
  connection 2, only connection 1 receives \<open>SOLD\<close>, connection 3 receives nothing, and the
  second message is delivered to no one because the listener has ended with the exception.
\<close>

theorem send_failure_not_isolated:
  "active_connections (run [Connect 1 ''a'', Connect 2 ''a'', Connect 3 ''a'']) ''a'' = Some [1, 2, 3]
   \<and> pubsub_data_reader (\<lambda>x d. x \<noteq> 2) (run [Connect 1 ''a'', Connect 2 ''a'', Connect 3 ''a''])
        [Some sold, Some sold] = ([(1, ''SOLD'')], Some SendError)"
  by (simp add: manager_simps)

end
